theory Spec2Isabelle
  imports Complex_Main
begin

section \<open>The safe expression evaluator of HW1.py\<close>

text \<open>
  The theory embeds \<^verbatim>\<open>safe_evaluate\<close> and its inner function \<^verbatim>\<open>_eval\<close>
  (src/HW1/HW1.py, lines 51 to 94). The function parses a source text with CPython's
  \<^verbatim>\<open>ast.parse(expr, mode='eval')\<close> and walks the tree it gets.

  Two parts of the program are not code of the repository: the parser and the objects of
  Python (the functions of the \<^verbatim>\<open>operator\<close> module, the built-in \<^verbatim>\<open>float\<close>, the
  arithmetic of floating-point numbers). They enter the model as a record of functions,
  \<open>pylib\<close>, and every general theorem holds for every such record. The type \<open>'f\<close>
  stands for Python's \<^verbatim>\<open>float\<close>.

  The tree walk is a structural recursion; Python's recursion limit is not modelled.
  The model follows CPython 3.8 to 3.13, where \<^verbatim>\<open>ast.parse\<close> builds \<^verbatim>\<open>ast.Constant\<close>
  nodes for every literal and \<^verbatim>\<open>ast.Num\<close> still exists.
\<close>

subsection \<open>Values, syntax trees, exceptions\<close>

text \<open>
  The values an \<^verbatim>\<open>ast.Constant\<close> node can carry after \<^verbatim>\<open>ast.parse\<close>: \<^verbatim>\<open>int\<close>
  (unbounded), \<^verbatim>\<open>bool\<close>, \<^verbatim>\<open>float\<close>, \<^verbatim>\<open>complex\<close> (two floats), \<^verbatim>\<open>str\<close>,
  \<^verbatim>\<open>bytes\<close>, \<^verbatim>\<open>None\<close> and \<^verbatim>\<open>Ellipsis\<close>.
\<close>

datatype 'f pyval =
    PInt int
  | PBool bool
  | PFloat 'f
  | PComplex 'f 'f
  | PStr string
  | PBytes string
  | PNone
  | PEllipsis

text \<open>
  The operator classes of the \<^verbatim>\<open>ast\<close> module, the possible values of
  \<^verbatim>\<open>type(node.op)\<close>. The source keeps binary and unary classes in one table, so they
  are one type here. \<^verbatim>\<open>ast.Pow\<close> and \<^verbatim>\<open>ast.Not\<close> carry a suffix, their names being
  constants of HOL.
\<close>

datatype operator_class =
    Add | Sub | Mult | MatMult | Div | Mod | Pow_op | LShift | RShift
  | BitOr | BitXor | BitAnd | FloorDiv
  | Invert | Not_op | UAdd | USub

text \<open>The expression classes of the \<^verbatim>\<open>ast\<close> module that \<^verbatim>\<open>_eval\<close> has no branch for.\<close>

datatype expr_class =
    BoolOp | NamedExpr | Lambda | IfExp | Dict | Set | ListComp | SetComp | DictComp
  | GeneratorExp | Await | Yield | YieldFrom | Compare | Call | FormattedValue
  | JoinedStr | Attribute | Subscript | Starred | List | Tuple | Slice

text \<open>
  A syntax tree. \<open>Constant\<close>, \<open>Num\<close>, \<open>Name\<close>, \<open>BinOp\<close> (fields \<^verbatim>\<open>left\<close>, \<^verbatim>\<open>op\<close>,
  \<^verbatim>\<open>right\<close>) and \<open>UnaryOp\<close> (fields \<^verbatim>\<open>op\<close>, \<^verbatim>\<open>operand\<close>) are the classes the source
  tests with \<^verbatim>\<open>isinstance\<close>; \<open>Other\<close> is a node of any other class, with its child
  expressions.
\<close>

datatype 'f node =
    Constant "'f pyval"
  | Num "'f pyval"
  | Name string
  | BinOp "'f node" operator_class "'f node"
  | UnaryOp operator_class "'f node"
  | Other expr_class "'f node list"

text \<open>
  The messages of the \<^verbatim>\<open>ValueError\<close>s the source raises, in the order of the source
  (lines 72, 79, 81, 88 and 94); \<open>LibraryMessage\<close> is the message of a
  \<^verbatim>\<open>ValueError\<close> raised by Python itself.
\<close>

datatype message =
    UnboundVariable string
  | DivisionByZero
  | UnsupportedOperator operator_class
  | UnsupportedSyntax
  | SyntaxErrorMessage
  | LibraryMessage string

datatype exn =
    ValueError message
  | KeyError operator_class
  | SyntaxError
  | TypeError
  | ZeroDivisionError
  | OverflowError
  | MemoryError
  | OtherException string

text \<open>The functions of the \<^verbatim>\<open>operator\<close> module that the table of the source names.\<close>

datatype operator_function =
    operator_add | operator_sub | operator_mul | operator_truediv
  | operator_neg | operator_pos

subsection \<open>Python, as far as the program calls it\<close>

text \<open>
  \<^item> \<open>ast_parse\<close>: \<^verbatim>\<open>ast.parse(expr, mode='eval').body\<close>, or the exception raised;
  \<^item> \<open>call\<close>: the call of a function of the \<^verbatim>\<open>operator\<close> module on its arguments;
  \<^item> \<open>float_of\<close>: \<^verbatim>\<open>float(x)\<close> for an object \<open>x\<close> that is not a \<^verbatim>\<open>float\<close>;
  \<^item> \<open>float_eq_zero\<close>: \<^verbatim>\<open>x == 0\<close> for a float \<open>x\<close>.
\<close>

record 'f pylib =
  ast_parse :: "string \<Rightarrow> exn + 'f node"
  call :: "operator_function \<Rightarrow> 'f pyval list \<Rightarrow> exn + 'f pyval"
  float_of :: "'f pyval \<Rightarrow> exn + 'f"
  float_eq_zero :: "'f \<Rightarrow> bool"

text \<open>\<^verbatim>\<open>float(x)\<close>: a float is returned as it is.\<close>

fun py_float :: "'f pylib \<Rightarrow> 'f pyval \<Rightarrow> exn + 'f" where
  "py_float L (PFloat f) = Inr f"
| "py_float L v = float_of L v"

text \<open>
  \<^verbatim>\<open>x == 0\<close>: numbers compare by value (\<^verbatim>\<open>False == 0\<close>, \<^verbatim>\<open>0j == 0\<close>), every other
  object is different from \<^verbatim>\<open>0\<close>.
\<close>

fun py_eq_zero :: "'f pylib \<Rightarrow> 'f pyval \<Rightarrow> bool" where
  "py_eq_zero L (PInt i) = (i = 0)"
| "py_eq_zero L (PBool b) = (b = False)"
| "py_eq_zero L (PFloat f) = float_eq_zero L f"
| "py_eq_zero L (PComplex re im) = (float_eq_zero L re \<and> float_eq_zero L im)"
| "py_eq_zero L (PStr s) = False"
| "py_eq_zero L (PBytes s) = False"
| "py_eq_zero L PNone = False"
| "py_eq_zero L PEllipsis = False"

subsection \<open>The evaluator\<close>

text \<open>The dictionary \<^verbatim>\<open>variables\<close>.\<close>

type_synonym 'f bindings = "string \<rightharpoonup> 'f pyval"

text \<open>The table \<^verbatim>\<open>allowed_operators\<close> (lines 55 to 62).\<close>

definition allowed_operators :: "operator_class \<rightharpoonup> operator_function" where
  "allowed_operators =
     [Add \<mapsto> operator_add, Sub \<mapsto> operator_sub, Mult \<mapsto> operator_mul,
      Div \<mapsto> operator_truediv, USub \<mapsto> operator_neg, UAdd \<mapsto> operator_pos]"

text \<open>
  \<^verbatim>\<open>_eval\<close> (lines 64 to 88), one equation for each branch of the source, in its order.
  The dictionary is the state: the function takes it and returns it with the result, an
  exception (\<open>Inl\<close>) or a value (\<open>Inr\<close>). In a \<open>BinOp\<close> the left operand runs first and
  an exception leaves the function at once; the test for a zero divisor comes before the
  test of the table, which comes before the call. In a \<open>UnaryOp\<close> the table is indexed
  without a test, and a missing key raises \<^verbatim>\<open>KeyError\<close>.
\<close>

fun eval_node :: "'f pylib \<Rightarrow> 'f node \<Rightarrow> 'f bindings \<Rightarrow> (exn + 'f pyval) \<times> 'f bindings" where
  "eval_node L (Constant v) variables = (Inr v, variables)"
| "eval_node L (Num n) variables = (Inr n, variables)"
| "eval_node L (Name x) variables =
     (case variables x of
        Some v \<Rightarrow> (map_sum id PFloat (py_float L v), variables)
      | None \<Rightarrow> (Inl (ValueError (UnboundVariable x)), variables))"
| "eval_node L (BinOp l op r) variables =
     (case eval_node L l variables of
        (Inl e, variables1) \<Rightarrow> (Inl e, variables1)
      | (Inr left, variables1) \<Rightarrow>
          (case eval_node L r variables1 of
             (Inl e, variables2) \<Rightarrow> (Inl e, variables2)
           | (Inr right, variables2) \<Rightarrow>
               (if op = Div \<and> py_eq_zero L right
                then (Inl (ValueError DivisionByZero), variables2)
                else (case allowed_operators op of
                        None \<Rightarrow> (Inl (ValueError (UnsupportedOperator op)), variables2)
                      | Some f \<Rightarrow> (call L f [left, right], variables2)))))"
| "eval_node L (UnaryOp op operand) variables =
     (case eval_node L operand variables of
        (Inl e, variables1) \<Rightarrow> (Inl e, variables1)
      | (Inr v, variables1) \<Rightarrow>
          (case allowed_operators op of
             None \<Rightarrow> (Inl (KeyError op), variables1)
           | Some f \<Rightarrow> (call L f [v], variables1)))"
| "eval_node L (Other c children) variables = (Inl (ValueError UnsupportedSyntax), variables)"

text \<open>The handler of line 93: a \<^verbatim>\<open>SyntaxError\<close> becomes the \<^verbatim>\<open>ValueError\<close> of line 94.\<close>

fun except_SyntaxError :: "exn \<Rightarrow> exn" where
  "except_SyntaxError SyntaxError = ValueError SyntaxErrorMessage"
| "except_SyntaxError e = e"

text \<open>
  \<^verbatim>\<open>safe_evaluate\<close> (lines 51 to 94). The argument is \<open>None\<close> or the caller's
  dictionary; with \<open>None\<close> the function works on a new empty dictionary of its own. The
  result comes with the caller's argument as it is after the call.
\<close>

definition safe_evaluate ::
  "'f pylib \<Rightarrow> string \<Rightarrow> 'f bindings option \<Rightarrow> (exn + 'f pyval) \<times> 'f bindings option" where
  "safe_evaluate L expr variables =
     (let local = (case variables of None \<Rightarrow> Map.empty | Some d \<Rightarrow> d) in
      case ast_parse L expr of
        Inl e \<Rightarrow> (Inl (except_SyntaxError e), variables)
      | Inr body \<Rightarrow>
          (case eval_node L body local of
             (r, local') \<Rightarrow>
               (map_sum except_SyntaxError id r,
                case variables of None \<Rightarrow> None | Some d \<Rightarrow> Some local')))"

subsection \<open>A sample of Python, to run the evaluator\<close>

text \<open>
  The general theorems hold for every library. To run the evaluator on concrete inputs
  the theory has one library, \<open>sample_lib\<close>, in which a float is a real number
  (no rounding and no overflow). It covers the part of Python the examples use:
  \<^item> the operators on \<^verbatim>\<open>int\<close>, \<^verbatim>\<open>bool\<close> and \<^verbatim>\<open>float\<close> operands (two ints give an
    int, except under \<^verbatim>\<open>/\<close>, which gives a float; a zero divisor raises \<^verbatim>\<open>ZeroDivisionError\<close>; the wrong
    number of arguments raises \<^verbatim>\<open>TypeError\<close>);
  \<^item> \<^verbatim>\<open>float\<close> of an int or a bool, and the \<^verbatim>\<open>TypeError\<close> of \<^verbatim>\<open>float\<close> on
    \<^verbatim>\<open>None\<close>, \<^verbatim>\<open>Ellipsis\<close> and a complex number;
  \<^item> the trees and the syntax errors of \<^verbatim>\<open>ast.parse\<close> for the sources listed in
    \<open>sample_sources\<close>;
  \<^item> the \<^verbatim>\<open>MemoryError\<close> of \<^verbatim>\<open>ast.parse\<close> (CPython 3.11 and 3.12) for the
    source of 6000 minus signs, \<^verbatim>\<open>'-' * 6000\<close>, which exhausts the parser's stack.
  Everywhere else it answers with the exception \<open>not_in_sample\<close>.
\<close>

fun sample_number :: "real pyval \<Rightarrow> (int + real) option" where
  "sample_number (PInt i) = Some (Inl i)"
| "sample_number (PBool b) = Some (Inl (if b then 1 else 0))"
| "sample_number (PFloat f) = Some (Inr f)"
| "sample_number v = None"

fun sample_real :: "int + real \<Rightarrow> real" where
  "sample_real (Inl i) = of_int i"
| "sample_real (Inr f) = f"

definition not_in_sample :: exn where
  "not_in_sample = OtherException ''outside the sample''"

definition sample_unary :: "operator_function \<Rightarrow> real pyval \<Rightarrow> exn + real pyval" where
  "sample_unary f a =
     (if f = operator_neg then
        (case sample_number a of
           Some (Inl i) \<Rightarrow> Inr (PInt (- i))
         | Some (Inr x) \<Rightarrow> Inr (PFloat (- x))
         | None \<Rightarrow> Inl not_in_sample)
      else if f = operator_pos then
        (case sample_number a of
           Some (Inl i) \<Rightarrow> Inr (PInt i)
         | Some (Inr x) \<Rightarrow> Inr (PFloat x)
         | None \<Rightarrow> Inl not_in_sample)
      else Inl TypeError)"

definition sample_binary ::
  "operator_function \<Rightarrow> real pyval \<Rightarrow> real pyval \<Rightarrow> exn + real pyval" where
  "sample_binary f a b =
     (if f = operator_neg \<or> f = operator_pos then Inl TypeError
      else
        (case sample_number a of
           None \<Rightarrow> Inl not_in_sample
         | Some x \<Rightarrow>
             (case sample_number b of
                None \<Rightarrow> Inl not_in_sample
              | Some y \<Rightarrow>
                  (if f = operator_truediv then
                     (if sample_real y = 0 then Inl ZeroDivisionError
                      else Inr (PFloat (sample_real x / sample_real y)))
                   else
                     (case (x, y) of
                        (Inl i, Inl j) \<Rightarrow>
                          Inr (PInt (if f = operator_add then i + j
                                     else if f = operator_sub then i - j else i * j))
                      | _ \<Rightarrow>
                          Inr (PFloat (if f = operator_add then sample_real x + sample_real y
                                       else if f = operator_sub then sample_real x - sample_real y
                                       else sample_real x * sample_real y)))))))"

definition sample_call :: "operator_function \<Rightarrow> real pyval list \<Rightarrow> exn + real pyval" where
  "sample_call f args =
     (case args of
        [a] \<Rightarrow> sample_unary f a
      | [a, b] \<Rightarrow> sample_binary f a b
      | _ \<Rightarrow> Inl TypeError)"

fun sample_float_of :: "real pyval \<Rightarrow> exn + real" where
  "sample_float_of (PInt i) = Inr (of_int i)"
| "sample_float_of (PBool b) = Inr (if b then 1 else 0)"
| "sample_float_of (PFloat f) = Inr f"
| "sample_float_of (PStr s) = Inl not_in_sample"
| "sample_float_of (PBytes s) = Inl not_in_sample"
| "sample_float_of v = Inl TypeError"

definition sample_sources :: "(string \<times> (exn + real node)) list" where
  "sample_sources =
     [(''2'', Inr (Constant (PInt 2))),
      (''2.5'', Inr (Constant (PFloat (5 / 2)))),
      (''x'', Inr (Name ''x'')),
      (''None'', Inr (Constant PNone)),
      (''True'', Inr (Constant (PBool True))),
      (''a+b'', Inr (BinOp (Name ''a'') Add (Name ''b''))),
      (''a/b'', Inr (BinOp (Name ''a'') Div (Name ''b''))),
      (''1/0'', Inr (BinOp (Constant (PInt 1)) Div (Constant (PInt 0)))),
      (''-(-5)'', Inr (UnaryOp USub (UnaryOp USub (Constant (PInt 5))))),
      (''2*(3+4)'',
         Inr (BinOp (Constant (PInt 2)) Mult (BinOp (Constant (PInt 3)) Add (Constant (PInt 4))))),
      (''2**3'', Inr (BinOp (Constant (PInt 2)) Pow_op (Constant (PInt 3)))),
      (''~1'', Inr (UnaryOp Invert (Constant (PInt 1)))),
      (''not 1'', Inr (UnaryOp Not_op (Constant (PInt 1)))),
      (''f(x)'', Inr (Other Call [Name ''f'', Name ''x''])),
      ([], Inl SyntaxError),
      (''2+'', Inl SyntaxError),
      (''(1'', Inl SyntaxError),
      (''2 $ 3'', Inl SyntaxError),
      (''x = 1'', Inl SyntaxError),
      (''1; 2'', Inl SyntaxError)]"

definition sample_parse :: "string \<Rightarrow> exn + real node" where
  "sample_parse expr =
     (case map_of sample_sources expr of
        Some r \<Rightarrow> r
      | None \<Rightarrow>
          (if expr = replicate 6000 CHR ''-'' then Inl MemoryError else Inl not_in_sample))"

definition sample_lib :: "real pylib" where
  "sample_lib =
     \<lparr>ast_parse = sample_parse, call = sample_call, float_of = sample_float_of,
      float_eq_zero = (\<lambda>x. x = 0)\<rparr>"

section \<open>Properties\<close>

subsection \<open>The dictionary is only read\<close>

lemmas sample_simps =
  sample_lib_def sample_parse_def sample_sources_def sample_call_def sample_binary_def
  sample_unary_def not_in_sample_def safe_evaluate_def allowed_operators_def

text \<open>No branch of the tree walk writes to the dictionary.\<close>

lemma eval_node_keeps_bindings: "snd (eval_node L n variables) = variables"
  by (induction L n variables rule: eval_node.induct)
     (auto split: prod.splits sum.splits option.splits)

lemma eval_node_bindings_after:
  assumes "eval_node L n variables = (r, variables')"
  shows "variables' = variables"
  using assms eval_node_keeps_bindings [of L n variables] by simp

lemma eval_node_result:
  assumes "fst (eval_node L n variables) = r"
  shows "eval_node L n variables = (r, variables)"
  using assms eval_node_keeps_bindings [of L n variables]
  by (cases "eval_node L n variables") simp

subsection \<open>The examples of the specification\<close>

text \<open>
  The evaluator on the sample library, at the inputs the specification lists as tests.
  The arithmetic of two integer literals stays in the integers.
\<close>

lemma specification_examples:
  "fst (safe_evaluate sample_lib ''a+b'' (Some [''a'' \<mapsto> PFloat 2, ''b'' \<mapsto> PFloat 3]))
     = Inr (PFloat 5)"
  "fst (safe_evaluate sample_lib ''a/b'' (Some [''a'' \<mapsto> PFloat 1, ''b'' \<mapsto> PFloat 0]))
     = Inl (ValueError DivisionByZero)"
  "fst (safe_evaluate sample_lib ''x'' (Some Map.empty)) = Inl (ValueError (UnboundVariable ''x''))"
  "fst (safe_evaluate sample_lib ''-(-5)'' None) = Inr (PInt 5)"
  "fst (safe_evaluate sample_lib ''2*(3+4)'' None) = Inr (PInt 14)"
  "fst (safe_evaluate sample_lib ''2.5'' None) = Inr (PFloat (5 / 2))"
  "fst (safe_evaluate sample_lib ''2+'' None) = Inl (ValueError SyntaxErrorMessage)"
  "fst (safe_evaluate sample_lib ''f(x)'' None) = Inl (ValueError UnsupportedSyntax)"
  "fst (safe_evaluate sample_lib ''2**3'' None) = Inl (ValueError (UnsupportedOperator Pow_op))"
  "fst (safe_evaluate sample_lib ''1/0'' None) = Inl (ValueError DivisionByZero)"
  by (simp_all add: sample_simps)

subsection \<open>Nodes outside the whitelist\<close>

text \<open>
  C1. A node of a class other than Constant, Num, Name, BinOp and UnaryOp (a call, a
  comparison, a boolean operation, a subscript, an attribute access, ...) makes the
  evaluation raise the ValueError for unsupported syntax, whatever its children, the
  bindings and the library are: the children are never evaluated, and the outcome is
  that exception, never a value.
\<close>

theorem unsupported_node_rejected:
  "eval_node L (Other c children) variables = (Inl (ValueError UnsupportedSyntax), variables)"
  by simp

subsection \<open>Division by zero\<close>

text \<open>
  C2. In a division node whose operands both evaluate, the right one to a value equal
  to zero, the evaluation raises the ValueError for division by zero. The theorem holds
  for every library, so the outcome does not depend on what \<^verbatim>\<open>operator.truediv\<close> would
  do with a zero divisor: the test comes before the call, and the outcome is never a
  value.
\<close>

theorem division_by_zero_rejected:
  assumes "fst (eval_node L l variables) = Inr left"
    and "fst (eval_node L r variables) = Inr right"
    and "py_eq_zero L right"
  shows "eval_node L (BinOp l Div r) variables = (Inl (ValueError DivisionByZero), variables)"
proof -
  have l: "eval_node L l variables = (Inr left, variables)"
    using assms(1) by (rule eval_node_result)
  have r: "eval_node L r variables = (Inr right, variables)"
    using assms(2) by (rule eval_node_result)
  show ?thesis using l r assms(3) by simp
qed

theorem division_by_zero_rejected_witness:
  "fst (eval_node sample_lib (Name ''a'') [''a'' \<mapsto> PFloat 1, ''b'' \<mapsto> PFloat 0])
     = Inr (PFloat 1)
   \<and> fst (eval_node sample_lib (Name ''b'') [''a'' \<mapsto> PFloat 1, ''b'' \<mapsto> PFloat 0])
     = Inr (PFloat 0)
   \<and> py_eq_zero sample_lib (PFloat 0)
   \<and> eval_node sample_lib (BinOp (Name ''a'') Div (Name ''b''))
        [''a'' \<mapsto> PFloat 1, ''b'' \<mapsto> PFloat 0]
     = (Inl (ValueError DivisionByZero), [''a'' \<mapsto> PFloat 1, ''b'' \<mapsto> PFloat 0])"
proof -
  let ?vs = "[''a'' \<mapsto> PFloat 1, ''b'' \<mapsto> PFloat (0::real)]"
  have a: "fst (eval_node sample_lib (Name ''a'') ?vs) = Inr (PFloat 1)" by simp
  have b: "fst (eval_node sample_lib (Name ''b'') ?vs) = Inr (PFloat 0)" by simp
  have z: "py_eq_zero sample_lib (PFloat 0)" by (simp add: sample_lib_def)
  show ?thesis using a b z division_by_zero_rejected [OF a b z] by simp
qed

text \<open>
  Whatever the left operand does, a division whose right operand evaluates to zero never
  returns a value: the outcome is the failure of the left operand, or the ValueError for
  division by zero.
\<close>

lemma zero_divisor_never_a_value:
  assumes "fst (eval_node L r variables) = Inr right" and "py_eq_zero L right"
  shows "fst (eval_node L (BinOp l Div r) variables) =
           (case fst (eval_node L l variables) of
              Inl e \<Rightarrow> Inl e
            | Inr left \<Rightarrow> Inl (ValueError DivisionByZero))"
proof (cases "fst (eval_node L l variables)")
  case (Inl e)
  then have "eval_node L l variables = (Inl e, variables)" by (rule eval_node_result)
  then show ?thesis by simp
next
  case (Inr left)
  then have l: "eval_node L l variables = (Inr left, variables)" by (rule eval_node_result)
  have r: "eval_node L r variables = (Inr right, variables)"
    using assms(1) by (rule eval_node_result)
  show ?thesis using l r assms(2) by simp
qed

subsection \<open>Operators outside the table\<close>

text \<open>The operator classes that are not keys of the table.\<close>

lemma operators_outside_table:
  "allowed_operators op = None \<longleftrightarrow>
     op \<in> {MatMult, Mod, Pow_op, LShift, RShift, BitOr, BitXor, BitAnd, FloorDiv, Invert, Not_op}"
  by (cases op) (simp_all add: allowed_operators_def)

text \<open>
  With operands that evaluate, a BinOp node with an operator outside the table raises the
  ValueError for an unsupported operator; a UnaryOp node with such an operator raises
  KeyError.
\<close>

lemma binary_operator_outside_table:
  assumes "fst (eval_node L l variables) = Inr a"
    and "fst (eval_node L r variables) = Inr b"
    and "allowed_operators op = None"
  shows "eval_node L (BinOp l op r) variables
           = (Inl (ValueError (UnsupportedOperator op)), variables)"
proof -
  have l: "eval_node L l variables = (Inr a, variables)"
    using assms(1) by (rule eval_node_result)
  have r: "eval_node L r variables = (Inr b, variables)"
    using assms(2) by (rule eval_node_result)
  have "op \<noteq> Div" using assms(3) by (auto simp: allowed_operators_def)
  then show ?thesis using l r assms(3) by simp
qed

lemma unary_operator_outside_table:
  assumes "fst (eval_node L operand variables) = Inr v"
    and "allowed_operators op = None"
  shows "eval_node L (UnaryOp op operand) variables = (Inl (KeyError op), variables)"
proof -
  have "eval_node L operand variables = (Inr v, variables)"
    using assms(1) by (rule eval_node_result)
  then show ?thesis using assms(2) by simp
qed

text \<open>
  C3. The claim: an operator outside the table, binary or unary, makes the evaluation
  raise the ValueError for an unsupported operator. The BinOp branch does so (here for
  \<^verbatim>\<open>**\<close>), the UnaryOp branch does not: it indexes the table without the test of the
  BinOp branch, so \<^verbatim>\<open>~\<close> and \<^verbatim>\<open>not\<close> raise KeyError.
\<close>

theorem unary_operator_outside_table_raises_KeyError:
  "eval_node L (UnaryOp Invert (Constant v)) variables = (Inl (KeyError Invert), variables)
   \<and> eval_node L (UnaryOp Not_op (Constant v)) variables = (Inl (KeyError Not_op), variables)
   \<and> eval_node L (BinOp (Constant v) Pow_op (Constant w)) variables
       = (Inl (ValueError (UnsupportedOperator Pow_op)), variables)
   \<and> fst (safe_evaluate sample_lib ''~1'' None) = Inl (KeyError Invert)"
  by (simp add: sample_simps)

subsection \<open>Literals\<close>

text \<open>
  C4, as amended. A literal node evaluates to the value it carries, unchanged and of the
  type the literal has: a floating-point literal gives that float, an integral literal
  gives an integer. This holds for both literal branches, Constant and Num.
\<close>

theorem literal_returned_unchanged:
  "eval_node L (Constant v) variables = (Inr v, variables)
   \<and> eval_node L (Num v) variables = (Inr v, variables)"
  by simp

text \<open>
  C4 as stated fails: the expression \<^verbatim>\<open>2\<close> evaluates to the integer 2, which is not
  the float 2.0.
\<close>

theorem integral_literal_stays_integer:
  "fst (safe_evaluate sample_lib ''2'' None) = Inr (PInt 2)
   \<and> fst (safe_evaluate sample_lib ''2'' None) \<noteq> Inr (PFloat 2)"
  by (simp add: sample_simps)

subsection \<open>The type of the result\<close>

text \<open>
  C5. The claim: the outcome is a float or one of the five classified errors, never a
  string, a boolean or None. The Constant branch returns the value of any literal
  without looking at its type, so the expressions \<^verbatim>\<open>None\<close> and \<^verbatim>\<open>True\<close> and a string
  literal evaluate to None, to True and to the string.
\<close>

theorem non_numeric_literal_returned:
  "fst (safe_evaluate sample_lib ''None'' None) = Inr PNone
   \<and> fst (safe_evaluate sample_lib ''True'' None) = Inr (PBool True)
   \<and> fst (eval_node L (Constant (PStr ''abc'')) variables) = Inr (PStr ''abc'')"
  by (simp add: sample_simps)

subsection \<open>Variables\<close>

text \<open>
  C6. A Name node whose name is not a key of the bindings raises the ValueError for an
  unbound variable, which names the variable. When the name is a key, the outcome is the
  bound value converted by \<^verbatim>\<open>float\<close>: a float, as the bindings are declared to hold,
  is returned as it is, and any other value for which \<^verbatim>\<open>float\<close> succeeds gives the
  converted float. Only the entry under exactly this name counts: two tables that agree
  on it give the same outcome.
\<close>

theorem variable_lookup:
  "(variables x = None \<longrightarrow>
      fst (eval_node L (Name x) variables) = Inl (ValueError (UnboundVariable x)))
   \<and> (variables x = Some (PFloat f) \<longrightarrow>
      fst (eval_node L (Name x) variables) = Inr (PFloat f))
   \<and> (variables x = Some v \<and> py_float L v = Inr g \<longrightarrow>
      fst (eval_node L (Name x) variables) = Inr (PFloat g))
   \<and> (other x = variables x \<longrightarrow>
      fst (eval_node L (Name x) other) = fst (eval_node L (Name x) variables))"
  by (simp split: option.splits)

theorem variable_lookup_witness:
  "[''X'' \<mapsto> PFloat 7] ''x'' = None
   \<and> fst (eval_node sample_lib (Name ''x'') [''X'' \<mapsto> PFloat 7])
       = Inl (ValueError (UnboundVariable ''x''))
   \<and> [''X'' \<mapsto> PFloat 7] ''X'' = Some (PFloat 7)
   \<and> fst (eval_node sample_lib (Name ''X'') [''X'' \<mapsto> PFloat 7]) = Inr (PFloat 7)
   \<and> py_float sample_lib (PInt 3) = Inr 3
   \<and> fst (eval_node sample_lib (Name ''n'') [''n'' \<mapsto> PInt 3]) = Inr (PFloat 3)
   \<and> fst (eval_node sample_lib (Name ''X'') [''X'' \<mapsto> PFloat 7, ''x'' \<mapsto> PFloat 8])
       = fst (eval_node sample_lib (Name ''X'') [''X'' \<mapsto> PFloat 7])"
  using
    variable_lookup [of "[''X'' \<mapsto> PFloat 7]" "''x''" sample_lib 7 "PFloat 7" 7
      "[''X'' \<mapsto> PFloat 7]"]
    variable_lookup [of "[''X'' \<mapsto> PFloat 7]" "''X''" sample_lib 7 "PFloat 7" 7
      "[''X'' \<mapsto> PFloat 7, ''x'' \<mapsto> PFloat 8]"]
    variable_lookup [of "[''n'' \<mapsto> PInt 3]" "''n''" sample_lib 3 "PInt 3" 3
      "[''n'' \<mapsto> PInt 3]"]
  by (simp add: sample_lib_def)

subsection \<open>Order of evaluation\<close>

text \<open>
  C7. In a BinOp node the left operand is evaluated first. When it raises, the node
  raises the same exception, whatever the operator and the right operand are: the right
  operand is not evaluated, and when both operands would fail, the failure of the left
  one is the outcome.
\<close>

theorem left_failure_short_circuits:
  assumes "fst (eval_node L l variables) = Inl e"
  shows "eval_node L (BinOp l op r) variables = (Inl e, variables)"
proof -
  have "eval_node L l variables = (Inl e, variables)"
    using assms by (rule eval_node_result)
  then show ?thesis by simp
qed

theorem left_failure_short_circuits_witness:
  "fst (eval_node sample_lib (Name ''x'') Map.empty) = Inl (ValueError (UnboundVariable ''x''))
   \<and> fst (eval_node sample_lib (Name ''y'') Map.empty) = Inl (ValueError (UnboundVariable ''y''))
   \<and> eval_node sample_lib (BinOp (Name ''x'') Div (Name ''y'')) Map.empty
       = (Inl (ValueError (UnboundVariable ''x'')), Map.empty)"
proof -
  have x: "fst (eval_node sample_lib (Name ''x'') Map.empty)
             = Inl (ValueError (UnboundVariable ''x''))"
    by simp
  show ?thesis using x left_failure_short_circuits [OF x, of Div "Name ''y''"] by simp
qed

subsection \<open>Syntax errors\<close>

text \<open>
  The handler of line 93 names SyntaxError only: any other exception of the parser
  leaves safe_evaluate as it is.
\<close>

lemma other_parser_failure_propagates:
  assumes "ast_parse L expr = Inl e" and "e \<noteq> SyntaxError"
  shows "safe_evaluate L expr variables = (Inl e, variables)"
proof -
  have "except_SyntaxError e = e" using assms(2) by (cases e) simp_all
  then show ?thesis using assms(1) by (simp add: safe_evaluate_def)
qed

text \<open>The source of 6000 minus signs is not in the table of the sample parser.\<close>

lemma sample_sources_short: "\<forall>k \<in> fst ` set sample_sources. length k < 6000"
  by (simp add: sample_sources_def)

lemma sample_parse_minus_signs: "sample_parse (replicate 6000 CHR ''-'') = Inl MemoryError"
proof -
  have "replicate 6000 CHR ''-'' \<notin> fst ` set sample_sources"
    using sample_sources_short by fastforce
  then have "map_of sample_sources (replicate 6000 CHR ''-'') = None"
    by (simp add: map_of_eq_None_iff)
  then show ?thesis by (simp add: sample_parse_def)
qed

text \<open>
  C8, as amended. When the parser rejects the source with a SyntaxError (the source is
  empty, has an unbalanced bracket or an invalid token, or is a statement or several),
  safe_evaluate raises the ValueError for a syntax error. No tree is evaluated and no
  value is returned.
\<close>

theorem syntax_error_classified:
  assumes "ast_parse L expr = Inl SyntaxError"
  shows "safe_evaluate L expr variables = (Inl (ValueError SyntaxErrorMessage), variables)"
  using assms by (simp add: safe_evaluate_def)

theorem syntax_error_classified_witness:
  "ast_parse sample_lib ''2+'' = Inl SyntaxError
   \<and> safe_evaluate sample_lib ''2+'' None = (Inl (ValueError SyntaxErrorMessage), None)
   \<and> ast_parse sample_lib [] = Inl SyntaxError
   \<and> safe_evaluate sample_lib [] None = (Inl (ValueError SyntaxErrorMessage), None)"
proof -
  have a: "ast_parse sample_lib ''2+'' = Inl SyntaxError"
    by (simp add: sample_lib_def sample_parse_def sample_sources_def)
  have b: "ast_parse sample_lib [] = Inl SyntaxError"
    by (simp add: sample_lib_def sample_parse_def sample_sources_def)
  show ?thesis
    using a b syntax_error_classified [OF a, of None] syntax_error_classified [OF b, of None]
    by simp
qed

text \<open>
  C8 as stated fails: the source of 6000 minus signs is not an expression, the parser
  gives up on it with MemoryError, not SyntaxError, and safe_evaluate raises that
  MemoryError, not the ValueError for a syntax error.
\<close>

theorem parser_failure_not_classified:
  "fst (safe_evaluate sample_lib (replicate 6000 CHR ''-'') None) = Inl MemoryError
   \<and> fst (safe_evaluate sample_lib (replicate 6000 CHR ''-'') None)
       \<noteq> Inl (ValueError SyntaxErrorMessage)"
proof -
  have "ast_parse sample_lib (replicate 6000 CHR ''-'') = Inl MemoryError"
    using sample_parse_minus_signs by (simp add: sample_lib_def)
  then have "fst (safe_evaluate sample_lib (replicate 6000 CHR ''-'') None) = Inl MemoryError"
    by (simp add: safe_evaluate_def)
  then show ?thesis by simp
qed

subsection \<open>No hidden state\<close>

text \<open>
  C9. A call of safe_evaluate leaves the caller's bindings as they were, and a second
  call with the same expression, on the bindings as the first call left them, has the
  same outcome as the first.
\<close>

theorem evaluation_repeatable:
  "snd (safe_evaluate L expr variables) = variables
   \<and> safe_evaluate L expr (snd (safe_evaluate L expr variables))
       = safe_evaluate L expr variables"
proof -
  have "snd (safe_evaluate L expr variables) = variables"
    by (auto simp: safe_evaluate_def split: sum.splits prod.splits option.splits
        dest: eval_node_bindings_after)
  then show ?thesis by simp
qed

text \<open>
  C10. Leaving the bindings out (None) gives the same outcome, value or exception, as
  passing an empty dictionary.
\<close>

theorem omitted_bindings_are_empty:
  "fst (safe_evaluate L expr None) = fst (safe_evaluate L expr (Some Map.empty))"
  by (simp add: safe_evaluate_def split: sum.splits prod.splits)

end
